theory Spec2Isabelle
  imports Complex_Main "HOL-Library.Product_Lexorder"
begin

section \<open>Text in the model\<close>

text \<open>
  The parsers work on Python \<open>str\<close> values. A character of the model is an Isabelle
  \<open>char\<close>, read as the code point it numbers (0 to 255, that is Latin-1, which holds
  every literal of the two parser modules: the accented capitals of the stop markers and of
  the header labels, the letter \<open>0xD1\<close> of the tax-id class and the no-break space).
  The library functions of \<open>str\<close> the parsers call are written out below on that alphabet.
\<close>

definition is_space :: "char \<Rightarrow> bool" where
  \<comment> \<open>\<open>str.isspace\<close> on one character, also the class \<open>\s\<close> of \<open>re\<close>\<close>
  "is_space c = ((9 \<le> (of_char c :: nat) \<and> (of_char c :: nat) \<le> 13)
                 \<or> (28 \<le> (of_char c :: nat) \<and> (of_char c :: nat) \<le> 32)
                 \<or> (of_char c :: nat) = 133 \<or> (of_char c :: nat) = 160)"

definition is_digit :: "char \<Rightarrow> bool" where
  \<comment> \<open>a decimal digit, the class \<open>\d\<close> of \<open>re\<close>\<close>
  "is_digit c = (48 \<le> (of_char c :: nat) \<and> (of_char c :: nat) \<le> 57)"

definition is_upper_AZ :: "char \<Rightarrow> bool" where
  "is_upper_AZ c = (65 \<le> (of_char c :: nat) \<and> (of_char c :: nat) \<le> 90)"

definition upper_char :: "char \<Rightarrow> string" where
  \<comment> \<open>\<open>str.upper\<close> on one character: the sharp s becomes two letters; the two letters whose
      capital lies beyond code point 255 (\<open>0xB5\<close>, \<open>0xFF\<close>) are left as they are\<close>
  "upper_char c =
     (let n = (of_char c :: nat) in
      if 97 \<le> n \<and> n \<le> 122 then [char_of (n - 32)]
      else if n = 223 then ''SS''
      else if (224 \<le> n \<and> n \<le> 246) \<or> (248 \<le> n \<and> n \<le> 254) then [char_of (n - 32)]
      else [c])"

definition upper :: "string \<Rightarrow> string" where
  "upper s = concat (map upper_char s)"

definition ascii_lower :: "char \<Rightarrow> char" where
  "ascii_lower c = (if is_upper_AZ c then char_of ((of_char c :: nat) + 32) else c)"

definition lstrip :: "string \<Rightarrow> string" where
  "lstrip s = dropWhile is_space s"

definition rstrip :: "string \<Rightarrow> string" where
  "rstrip s = rev (dropWhile is_space (rev s))"

definition strip :: "string \<Rightarrow> string" where
  \<comment> \<open>\<open>str.strip()\<close>\<close>
  "strip s = rstrip (lstrip s)"

definition replace :: "char \<Rightarrow> string \<Rightarrow> string \<Rightarrow> string" where
  \<comment> \<open>\<open>s.replace(c, r)\<close> for a one-character \<open>c\<close>, the only form the parsers use\<close>
  "replace c r s = concat (map (\<lambda>x. if x = c then r else [x]) s)"

fun startswith :: "string \<Rightarrow> string \<Rightarrow> bool" where
  "startswith s [] = True"
| "startswith [] (p # ps) = False"
| "startswith (c # s) (p # ps) = (c = p \<and> startswith s ps)"

fun contains :: "string \<Rightarrow> string \<Rightarrow> bool" where
  \<comment> \<open>\<open>sub in s\<close>\<close>
  "contains sub [] = (sub = [])"
| "contains sub (c # s) = (startswith (c # s) sub \<or> contains sub s)"

definition join :: "string \<Rightarrow> string list \<Rightarrow> string" where
  \<comment> \<open>\<open>sep.join(xs)\<close>\<close>
  "join sep xs = (case xs of [] \<Rightarrow> [] | y # ys \<Rightarrow> y @ concat (map (\<lambda>z. sep @ z) ys))"

fun split_ws_aux :: "string \<Rightarrow> string \<Rightarrow> string list" where
  "split_ws_aux cur [] = (if cur = [] then [] else [rev cur])"
| "split_ws_aux cur (c # s) =
     (if is_space c then (if cur = [] then split_ws_aux [] s else rev cur # split_ws_aux [] s)
      else split_ws_aux (c # cur) s)"

definition split_ws :: "string \<Rightarrow> string list" where
  \<comment> \<open>\<open>s.split()\<close>: the maximal runs of non-blank characters\<close>
  "split_ws s = split_ws_aux [] s"

definition is_linebreak :: "char \<Rightarrow> bool" where
  \<comment> \<open>the line boundaries of \<open>str.splitlines\<close>\<close>
  "is_linebreak c = ((10 \<le> (of_char c :: nat) \<and> (of_char c :: nat) \<le> 13)
                     \<or> (28 \<le> (of_char c :: nat) \<and> (of_char c :: nat) \<le> 30)
                     \<or> (of_char c :: nat) = 133)"

fun splitlines_aux :: "string \<Rightarrow> string \<Rightarrow> string list" where
  "splitlines_aux cur [] = (if cur = [] then [] else [rev cur])"
| "splitlines_aux cur [c] = (if is_linebreak c then [rev cur] else [rev (c # cur)])"
| "splitlines_aux cur (c # d # s) =
     (if c = CHR 0x0D \<and> d = CHR 0x0A then rev cur # splitlines_aux [] s
      else if is_linebreak c then rev cur # splitlines_aux [] (d # s)
      else splitlines_aux (c # cur) (d # s))"

definition splitlines :: "string \<Rightarrow> string list" where
  \<comment> \<open>\<open>s.splitlines()\<close>: a carriage return followed by a line feed is one boundary, and a
      boundary at the very end opens no further line\<close>
  "splitlines s = splitlines_aux [] s"

section \<open>Numbers read from text\<close>

text \<open>
  \<open>float(s)\<close> returns a double. The model keeps the exact rational the literal denotes:
  \<open>Finite q\<close> stands for the double nearest to \<open>q\<close>. The non-finite values that
  \<open>float\<close> accepts by name are values of their own.
\<close>

datatype pyfloat = Finite rat | PosInf | NegInf | NaN

fun pf_neg :: "pyfloat \<Rightarrow> pyfloat" where
  "pf_neg (Finite q) = Finite (- q)"
| "pf_neg PosInf = NegInf"
| "pf_neg NegInf = PosInf"
| "pf_neg NaN = NaN"

fun pf_abs :: "pyfloat \<Rightarrow> pyfloat" where
  \<comment> \<open>\<open>abs(x)\<close>\<close>
  "pf_abs (Finite q) = Finite \<bar>q\<bar>"
| "pf_abs PosInf = PosInf"
| "pf_abs NegInf = PosInf"
| "pf_abs NaN = NaN"

fun pf_lt0 :: "pyfloat \<Rightarrow> bool" where
  \<comment> \<open>\<open>x < 0\<close>\<close>
  "pf_lt0 (Finite q) = (q < 0)"
| "pf_lt0 PosInf = False"
| "pf_lt0 NegInf = True"
| "pf_lt0 NaN = False"

fun digitpart :: "string \<Rightarrow> bool" where
  \<comment> \<open>digits, with single underscores allowed between two digits\<close>
  "digitpart [] = False"
| "digitpart [c] = is_digit c"
| "digitpart (c # d # s) =
     (is_digit c \<and> (if d = CHR ''_'' then digitpart s else digitpart (d # s)))"

definition digits_val :: "string \<Rightarrow> nat" where
  "digits_val s = foldl (\<lambda>a c. 10 * a + ((of_char c :: nat) - 48)) 0 (filter is_digit s)"

definition parse_number :: "string \<Rightarrow> rat option" where
  \<comment> \<open>\<open>[digitpart] "." digitpart | digitpart ["."]\<close>\<close>
  "parse_number m =
     (let ip = takeWhile (\<lambda>c. c \<noteq> CHR ''.'') m;
          rest = dropWhile (\<lambda>c. c \<noteq> CHR ''.'') m
      in case rest of
           [] \<Rightarrow> if digitpart ip then Some (of_nat (digits_val ip)) else None
         | _ # fp \<Rightarrow>
             if (ip = [] \<or> digitpart ip) \<and> (fp = [] \<or> digitpart fp) \<and> \<not> (ip = [] \<and> fp = [])
             then Some (of_nat (digits_val ip)
                        + of_nat (digits_val fp) / 10 ^ length (filter is_digit fp))
             else None)"

definition parse_exponent :: "string \<Rightarrow> int option" where
  "parse_exponent e =
     (case e of
        [] \<Rightarrow> None
      | c # r \<Rightarrow>
          if c = CHR ''-'' then (if digitpart r then Some (- int (digits_val r)) else None)
          else if c = CHR ''+'' then (if digitpart r then Some (int (digits_val r)) else None)
          else if digitpart e then Some (int (digits_val e)) else None)"

definition is_e :: "char \<Rightarrow> bool" where
  "is_e c = (c = CHR ''e'' \<or> c = CHR ''E'')"

definition scale10 :: "rat \<Rightarrow> int \<Rightarrow> rat" where
  "scale10 q k = (if 0 \<le> k then q * 10 ^ nat k else q / 10 ^ nat (- k))"

definition parse_floatnumber :: "string \<Rightarrow> rat option" where
  "parse_floatnumber t =
     (let m = takeWhile (\<lambda>c. \<not> is_e c) t;
          rest = dropWhile (\<lambda>c. \<not> is_e c) t
      in case rest of
           [] \<Rightarrow> parse_number m
         | _ # e \<Rightarrow>
             (case parse_number m of
                None \<Rightarrow> None
              | Some q \<Rightarrow> (case parse_exponent e of None \<Rightarrow> None | Some k \<Rightarrow> Some (scale10 q k))))"

definition parse_absfloat :: "string \<Rightarrow> pyfloat option" where
  "parse_absfloat t =
     (let l = map ascii_lower t
      in if l = ''inf'' \<or> l = ''infinity'' then Some PosInf
         else if l = ''nan'' then Some NaN
         else map_option Finite (parse_floatnumber t))"

definition py_float :: "string \<Rightarrow> pyfloat option" where
  \<comment> \<open>\<open>float(s)\<close>; \<open>None\<close> is the \<open>ValueError\<close> both normalizers catch\<close>
  "py_float s =
     (case strip s of
        [] \<Rightarrow> None
      | c # r \<Rightarrow>
          if c = CHR ''-'' then map_option pf_neg (parse_absfloat r)
          else if c = CHR ''+'' then parse_absfloat r
          else parse_absfloat (c # r))"

section \<open>The amount normalizers\<close>

definition bbva_limpiar_monto :: "string option \<Rightarrow> pyfloat option" where
  \<comment> \<open>\<open>_limpiar_monto\<close> of the positional parser\<close>
  "bbva_limpiar_monto valor =
     (case valor of
        None \<Rightarrow> None
      | Some v \<Rightarrow>
          (let txt = strip v in
           if txt = [] \<or> txt = ''-'' then None
           else
             (let txt1 = replace (CHR '' '') [] (replace (CHR ''$'') [] txt);
                  txt2 = (if CHR '','' \<in> set txt1 \<and> CHR ''.'' \<in> set txt1
                          then replace (CHR '','') [] txt1
                          else if CHR '','' \<in> set txt1 \<and> CHR ''.'' \<notin> set txt1
                          then replace (CHR '','') ''.'' (replace (CHR ''.'') [] txt1)
                          else txt1)
              in if count_list txt2 (CHR ''-'') = 1 \<and> startswith txt2 ''-''
                 then py_float (replace (CHR ''-'') [] txt2)
                 else py_float txt2)))"

definition bbva_tc_limpiar_monto :: "string option \<Rightarrow> pyfloat option" where
  \<comment> \<open>\<open>_limpiar_monto\<close> of the line-pattern parser\<close>
  "bbva_tc_limpiar_monto txt =
     (case txt of
        None \<Rightarrow> None
      | Some v \<Rightarrow>
          (let s = replace (CHR '' '') [] (replace (CHR ''$'') [] (strip v)) in
           if s = [] then None
           else
             (let s2 = (if CHR '','' \<in> set s \<and> CHR ''.'' \<in> set s
                        then replace (CHR '','') [] s
                        else if CHR '','' \<in> set s \<and> CHR ''.'' \<notin> set s
                        then replace (CHR '','') ''.'' (replace (CHR ''.'') [] s)
                        else s)
              in py_float s2)))"

section \<open>Regular expressions\<close>

text \<open>
  The patterns of the two modules use only sequences of single-character classes with a
  repetition count, named or numbered groups and anchors, so a pattern of the model is a
  list of such items, and matching is the backtracking search of \<open>re\<close>: a greedy
  repetition tries one more character before it tries the rest of the pattern, a lazy one
  tries the rest of the pattern first.
\<close>

datatype cset = Digit | Space | AnyChar | Range char char | Chars string | Union cset cset

fun in_cset :: "cset \<Rightarrow> char \<Rightarrow> bool" where
  "in_cset Digit c = is_digit c"
| "in_cset Space c = is_space c"
| "in_cset AnyChar c = (c \<noteq> CHR 0x0A)"
| "in_cset (Range a b) c = ((of_char a :: nat) \<le> of_char c \<and> (of_char c :: nat) \<le> of_char b)"
| "in_cset (Chars cs) c = (c \<in> set cs)"
| "in_cset (Union x y) c = (in_cset x c \<or> in_cset y c)"

datatype item =
    Bol                               \<comment> \<open>\<open>^\<close>\<close>
  | Eol                               \<comment> \<open>\<open>$\<close>: the end, or just before a final line feed\<close>
  | Eos                               \<comment> \<open>the very end, what \<open>fullmatch\<close> asks for\<close>
  | Lit char
  | Rep cset nat "nat option" bool    \<comment> \<open>class, least count, greatest count, greedy\<close>
  | Open string
  | Close string

type_synonym mstate = "(string \<times> string) list \<times> (string \<times> string) list"

fun rep_match ::
  "(string \<Rightarrow> 'r option) \<Rightarrow> cset \<Rightarrow> nat \<Rightarrow> nat option \<Rightarrow> bool \<Rightarrow> string \<Rightarrow> 'r option" where
  "rep_match cont cs mn mx greedy [] = (if mn = 0 then cont [] else None)"
| "rep_match cont cs mn mx greedy (c # s) =
     (if greedy then
        (case (if in_cset cs c \<and> mx \<noteq> Some 0
               then rep_match cont cs (mn - 1) (map_option (\<lambda>m. m - 1) mx) greedy s
               else None) of
           Some r \<Rightarrow> Some r
         | None \<Rightarrow> if mn = 0 then cont (c # s) else None)
      else
        (case (if mn = 0 then cont (c # s) else None) of
           Some r \<Rightarrow> Some r
         | None \<Rightarrow>
             if in_cset cs c \<and> mx \<noteq> Some 0
             then rep_match cont cs (mn - 1) (map_option (\<lambda>m. m - 1) mx) greedy s
             else None))"

primrec rmatch :: "item list \<Rightarrow> string \<Rightarrow> string \<Rightarrow> mstate \<Rightarrow> mstate option" where
  "rmatch [] whole rest st = Some st"
| "rmatch (i # is) whole rest st =
     (case i of
        Bol \<Rightarrow> if length rest = length whole then rmatch is whole rest st else None
      | Eol \<Rightarrow> if rest = [] \<or> rest = [CHR 0x0A] then rmatch is whole rest st else None
      | Eos \<Rightarrow> if rest = [] then rmatch is whole rest st else None
      | Lit c \<Rightarrow> (case rest of [] \<Rightarrow> None
                  | d # r \<Rightarrow> if d = c then rmatch is whole r st else None)
      | Rep cs mn mx g \<Rightarrow> rep_match (\<lambda>r. rmatch is whole r st) cs mn mx g rest
      | Open n \<Rightarrow> rmatch is whole rest ((n, rest) # fst st, snd st)
      | Close n \<Rightarrow>
          (case map_of (fst st) n of
             None \<Rightarrow> None
           | Some start \<Rightarrow>
               rmatch is whole rest
                 (fst st, (n, take (length start - length rest) start) # snd st)))"

definition re_match :: "item list \<Rightarrow> string \<Rightarrow> (string \<times> string) list option" where
  \<comment> \<open>\<open>pattern.match(s)\<close>: the groups of the first match that starts at the beginning\<close>
  "re_match items s = map_option snd (rmatch items s s ([], []))"

definition re_fullmatch :: "item list \<Rightarrow> string \<Rightarrow> (string \<times> string) list option" where
  "re_fullmatch items s = re_match (items @ [Eos]) s"

fun re_search_from :: "item list \<Rightarrow> string \<Rightarrow> string \<Rightarrow> (string \<times> string) list option" where
  "re_search_from items whole [] = map_option snd (rmatch items whole [] ([], []))"
| "re_search_from items whole (c # r) =
     (case rmatch items whole (c # r) ([], []) of
        Some st \<Rightarrow> Some (snd st)
      | None \<Rightarrow> re_search_from items whole r)"

definition re_search :: "item list \<Rightarrow> string \<Rightarrow> (string \<times> string) list option" where
  \<comment> \<open>\<open>re.search\<close>: the first match at the leftmost position that has one\<close>
  "re_search items s = re_search_from items s s"

definition group :: "(string \<times> string) list \<Rightarrow> string \<Rightarrow> string" where
  \<comment> \<open>\<open>m.group(n)\<close>; every group of the patterns below takes part in every match\<close>
  "group g n = (case map_of g n of None \<Rightarrow> [] | Some t \<Rightarrow> t)"

definition digits :: "nat \<Rightarrow> nat \<Rightarrow> item" where
  \<comment> \<open>\<open>\d{a,b}\<close>\<close>
  "digits a b = Rep Digit a (Some b) True"

definition spaces1 :: item where
  \<comment> \<open>\<open>\s+\<close>\<close>
  "spaces1 = Rep Space 1 None True"

definition spaces0 :: item where
  \<comment> \<open>\<open>\s*\<close>\<close>
  "spaces0 = Rep Space 0 None True"

section \<open>Words, records and errors\<close>

record word =
  w_text :: string
  w_x0 :: rat
  w_x1 :: rat
  w_top :: rat

text \<open>
  A word is what \<open>extract_words\<close> gives for one word of a page: its text, its left and
  right edge and its vertical offset. Coordinates are exact rationals in the model. A hit of
  the column resolver is a word with the normalised label it carries (the key \<open>_k\<close>).
\<close>

record hit = word +
  hit_k :: string

record 'd movimiento =
  fecha_operacion :: string
  fecha_liquidacion :: 'd
  codigo :: string
  descripcion :: string
  cargos :: "pyfloat option"
  abonos :: "pyfloat option"
  saldo_operacion :: "pyfloat option"
  saldo_liquidacion :: "pyfloat option"
  detalle :: string
  cuenta :: string
  moneda :: string
  origen_pdf :: string
  pagina :: nat

text \<open>
  One transaction record, with the keys of the dictionaries both parsers append. The
  settlement date is text while a parser collects records; the line-pattern parser converts
  that column before it sorts, hence the type parameter.
\<close>

datatype error = IndexError | KeyError | ValueError

record page =
  p_text :: string
  p_words :: "word list"

text \<open>
  A page as the extraction library presents it: \<open>p_text\<close> is
  \<open>page.extract_text() or ""\<close>, \<open>p_words\<close> is \<open>page.extract_words()\<close>.
\<close>

record document =
  d_name :: string
  d_stem :: string
  d_pages :: "page list"

record parser =
  cuenta_por_defecto :: "string option"
  moneda_por_defecto :: string

definition init_parser :: "string option \<Rightarrow> string option \<Rightarrow> parser" where
  \<comment> \<open>\<open>__init__\<close> of both parser classes\<close>
  "init_parser c m =
     \<lparr>cuenta_por_defecto = c,
      moneda_por_defecto = (case m of None \<Rightarrow> ''MXN'' | Some x \<Rightarrow> if x = [] then ''MXN'' else x)\<rparr>"

definition cuenta_de :: "parser \<Rightarrow> document \<Rightarrow> string" where
  \<comment> \<open>\<open>self.cuenta_por_defecto or ruta_pdf.stem\<close>\<close>
  "cuenta_de ps doc =
     (case cuenta_por_defecto ps of
        None \<Rightarrow> d_stem doc
      | Some c \<Rightarrow> if c = [] then d_stem doc else c)"

section \<open>The positional parser\<close>

definition PATRON_FECHA :: "item list" where
  \<comment> \<open>\<open>\d{2}/[A-Z]{3}\<close>\<close>
  "PATRON_FECHA = [digits 2 2, Lit (CHR ''/''), Rep (Range (CHR ''A'') (CHR ''Z'')) 3 (Some 3) True]"

definition PATRON_MONTO :: "item list" where
  \<comment> \<open>\<open>^[\d,]+\.\d{2}$\<close>\<close>
  "PATRON_MONTO =
     [Bol, Rep (Union Digit (Chars '','')) 1 None True, Lit (CHR ''.''), digits 2 2, Eol]"

definition es_fecha :: "string \<Rightarrow> bool" where
  \<comment> \<open>\<open>PATRON_FECHA.fullmatch(t)\<close> as a truth value\<close>
  "es_fecha t = (re_fullmatch PATRON_FECHA t \<noteq> None)"

definition es_monto :: "string \<Rightarrow> bool" where
  \<comment> \<open>\<open>PATRON_MONTO.fullmatch(txt)\<close> as a truth value\<close>
  "es_monto t = (re_fullmatch PATRON_MONTO t \<noteq> None)"

definition mes_str_a_num :: "string \<Rightarrow> string" where
  "mes_str_a_num mes =
     (case map_of
        [(''ENE'', ''01''), (''FEB'', ''02''), (''MAR'', ''03''), (''ABR'', ''04''),
         (''MAY'', ''05''), (''JUN'', ''06''), (''JUL'', ''07''), (''AGO'', ''08''),
         (''SEP'', ''09''), (''OCT'', ''10''), (''NOV'', ''11''), (''DIC'', ''12'')]
        (upper mes) of
        None \<Rightarrow> ''01''
      | Some n \<Rightarrow> n)"

definition parse_fecha :: "string \<Rightarrow> string option \<Rightarrow> string" where
  \<comment> \<open>\<open>BBVAParser._parse_fecha\<close>\<close>
  "parse_fecha fecha_ddmes anio =
     (let anio1 = (case anio of None \<Rightarrow> ''2025'' | Some a \<Rightarrow> if a = [] then ''2025'' else a);
          f = upper (strip fecha_ddmes)
      in case re_match
                [Bol, Open ''1'', digits 2 2, Close ''1'', Lit (CHR ''/''),
                 Open ''2'', Rep (Range (CHR ''A'') (CHR ''Z'')) 3 (Some 3) True, Close ''2'', Eol] f of
           None \<Rightarrow> f
         | Some m \<Rightarrow> anio1 @ ''-'' @ mes_str_a_num (group m ''2'') @ ''-'' @ group m ''1'')"

definition obtener_anio_desde_portada :: "string \<Rightarrow> string option" where
  \<comment> \<open>search for \<open>DEL\s+\d{2}/\d{2}/(\d{4})\s+AL\s+\d{2}/\d{2}/\d{4}\<close>\<close>
  "obtener_anio_desde_portada texto =
     map_option (\<lambda>m. group m ''1'')
       (re_search
          [Lit (CHR ''D''), Lit (CHR ''E''), Lit (CHR ''L''), spaces1,
           digits 2 2, Lit (CHR ''/''), digits 2 2, Lit (CHR ''/''),
           Open ''1'', digits 4 4, Close ''1'', spaces1,
           Lit (CHR ''A''), Lit (CHR ''L''), spaces1,
           digits 2 2, Lit (CHR ''/''), digits 2 2, Lit (CHR ''/''), digits 4 4]
          texto)"

subsection \<open>Column geometry\<close>

definition norm_txt :: "string \<Rightarrow> string" where
  \<comment> \<open>the local helper \<open>norm\<close>: upper case, stripped, four accented capitals folded\<close>
  "norm_txt txt =
     replace (CHR 0xDA) ''U'' (replace (CHR 0xCD) ''I'' (replace (CHR 0xC1) ''A''
       (replace (CHR 0xD3) ''O'' (strip (upper txt)))))"

definition objetivos :: "string list" where
  "objetivos = [''CARGOS'', ''ABONOS'', ''OPERACION'', ''LIQUIDACION'']"

definition mk_hit :: "word \<Rightarrow> string \<Rightarrow> hit" where
  \<comment> \<open>\<open>{**w, "_k": t}\<close>\<close>
  "mk_hit w t = \<lparr>w_text = w_text w, w_x0 = w_x0 w, w_x1 = w_x1 w, w_top = w_top w, hit_k = t\<rparr>"

fun dict_set :: "'k \<Rightarrow> 'v \<Rightarrow> ('k \<times> 'v) list \<Rightarrow> ('k \<times> 'v) list" where
  \<comment> \<open>\<open>d[k] = v\<close> on a dictionary kept in insertion order\<close>
  "dict_set k v [] = [(k, v)]"
| "dict_set k v (p # ps) = (if fst p = k then (k, v) # ps else p # dict_set k v ps)"

definition dict_get :: "('k \<times> 'v) list \<Rightarrow> 'k \<Rightarrow> error + 'v" where
  \<comment> \<open>\<open>d[k]\<close>\<close>
  "dict_get d k = (case map_of d k of None \<Rightarrow> Inl KeyError | Some v \<Rightarrow> Inr v)"

fun colocar :: "rat \<Rightarrow> hit \<Rightarrow> hit list list \<Rightarrow> hit list list" where
  \<comment> \<open>one hit joins the first group whose first member is within the tolerance, or opens a group\<close>
  "colocar tol_fila w [] = [[w]]"
| "colocar tol_fila w (g # gs) =
     (if \<bar>w_top w - w_top (hd g)\<bar> \<le> tol_fila then (g @ [w]) # gs
      else g # colocar tol_fila w gs)"

definition hits_de :: "word list \<Rightarrow> hit list" where
  "hits_de words =
     map (\<lambda>w. mk_hit w (norm_txt (w_text w)))
       (filter (\<lambda>w. norm_txt (w_text w) \<in> set objetivos) words)"

definition grupos_de :: "word list \<Rightarrow> rat \<Rightarrow> hit list list" where
  "grupos_de words tol_fila =
     foldl (\<lambda>grupos w. colocar tol_fila w grupos) []
       (sort_key (\<lambda>ww. (w_top ww, w_x0 ww)) (hits_de words))"

definition tiene_objetivos :: "hit list \<Rightarrow> bool" where
  \<comment> \<open>\<open>objetivos <= keys\<close>\<close>
  "tiene_objetivos g = (set objetivos \<subseteq> set (map hit_k g))"

definition centers_de :: "hit list \<Rightarrow> (string \<times> rat) list" where
  "centers_de g = foldl (\<lambda>centers w. dict_set (hit_k w) ((w_x0 w + w_x1 w) / 2) centers) [] g"

definition candidatos_de :: "hit list list \<Rightarrow> (rat \<times> (string \<times> rat) list) list" where
  "candidatos_de grupos = map (\<lambda>g. (w_top (hd g), centers_de g)) (filter tiene_objetivos grupos)"

definition detectar_columnas_montos :: "word list \<Rightarrow> rat \<Rightarrow> (string \<times> rat) list option" where
  "detectar_columnas_montos words tol_fila =
     (if hits_de words = [] then None
      else
        (let candidatos = candidatos_de (grupos_de words tol_fila)
         in if candidatos = [] then None
            else Some (snd (hd (sort_key fst candidatos)))))"

definition tol_fila_default :: rat where
  \<comment> \<open>the default of \<open>_detectar_columnas_montos(words, tol_fila=3.0)\<close>\<close>
  "tol_fila_default = 3"

subsection \<open>Rows\<close>

fun agrupar_paso ::
  "rat \<Rightarrow> word list list \<times> word list \<times> rat option \<Rightarrow> word
     \<Rightarrow> word list list \<times> word list \<times> rat option" where
  "agrupar_paso tol (rows, current, current_top) w =
     (case current_top of
        None \<Rightarrow> (rows, current @ [w], Some (w_top w))
      | Some t \<Rightarrow>
          if \<bar>w_top w - t\<bar> > tol then (rows @ [current], [w], Some (w_top w))
          else (rows, current @ [w], Some t))"

definition agrupar_filas :: "word list \<Rightarrow> rat \<Rightarrow> word list list" where
  "agrupar_filas words tol =
     (case foldl (agrupar_paso tol) ([], [], None) (sort_key (\<lambda>ww. (w_top ww, w_x0 ww)) words) of
        (rows, current, _) \<Rightarrow> if current \<noteq> [] then rows @ [current] else rows)"

definition tol_default :: rat where
  \<comment> \<open>the default of \<open>_agrupar_filas(words, tol=2.0)\<close>\<close>
  "tol_default = 2"

fun min_by :: "('a \<Rightarrow> rat) \<Rightarrow> 'a \<Rightarrow> 'a list \<Rightarrow> 'a" where
  \<comment> \<open>\<open>min(xs, key=f)\<close> on a non-empty sequence: the first of the least\<close>
  "min_by f best [] = best"
| "min_by f best (y # ys) = (if f y < f best then min_by f y ys else min_by f best ys)"

definition columna_por_x :: "rat \<Rightarrow> (string \<times> rat) list \<Rightarrow> error + string" where
  "columna_por_x x col_centers =
     (case col_centers of
        [] \<Rightarrow> Inl ValueError
      | kv # kvs \<Rightarrow> Inr (fst (min_by (\<lambda>kv. \<bar>x - snd kv\<bar>) kv kvs)))"

subsection \<open>Rows into records\<close>

record entorno =
  e_cuenta :: string
  e_moneda :: string
  e_origen :: string
  e_anio :: "string option"

text \<open>
  What \<open>parse_movimientos\<close> fixes before its loops: the account, the currency, the name of
  the file and, for the positional parser, the year read from the cover page.
\<close>

type_synonym montos = "pyfloat option \<times> pyfloat option \<times> pyfloat option \<times> pyfloat option"

fun asignar_montos :: "(string \<times> rat) list \<Rightarrow> word list \<Rightarrow> montos \<Rightarrow> error + montos" where
  \<comment> \<open>the loop that files every amount token of a row under the nearest column\<close>
  "asignar_montos col_centers [] ms = Inr ms"
| "asignar_montos col_centers (w # ws) (c, a, so, sl) =
     (if es_monto (w_text w) then
        (case columna_por_x ((w_x0 w + w_x1 w) / 2) col_centers of
           Inl e \<Rightarrow> Inl e
         | Inr col \<Rightarrow>
             (let val = bbva_limpiar_monto (Some (w_text w))
              in if col = ''CARGOS'' then asignar_montos col_centers ws (val, a, so, sl)
                 else if col = ''ABONOS'' then asignar_montos col_centers ws (c, val, so, sl)
                 else if col = ''OPERACION'' then asignar_montos col_centers ws (c, a, val, sl)
                 else if col = ''LIQUIDACION'' then asignar_montos col_centers ws (c, a, so, val)
                 else asignar_montos col_centers ws (c, a, so, sl)))
      else asignar_montos col_centers ws (c, a, so, sl))"

definition idx_fechas_de :: "string list \<Rightarrow> nat list" where
  \<comment> \<open>\<open>[i for i, t in enumerate(textos) if PATRON_FECHA.fullmatch(t)]\<close>\<close>
  "idx_fechas_de textos = filter (\<lambda>i. es_fecha (textos ! i)) [0 ..< length textos]"

definition movimiento_de_fila ::
  "entorno \<Rightarrow> nat \<Rightarrow> (string \<times> rat) list \<Rightarrow> word list \<Rightarrow> nat \<Rightarrow> nat
     \<Rightarrow> error + string movimiento" where
  \<comment> \<open>the record of a row whose first two date tokens stand at \<open>i1\<close> and \<open>i2\<close>\<close>
  "movimiento_de_fila env num_pagina col_centers fila i1 i2 =
     (let textos = map w_text fila;
          fecha_op_raw = textos ! i1;
          fecha_liq_raw = textos ! i2;
          codigo1 = (if length textos > i2 + 1 then textos ! (i2 + 1) else [])
      in case dict_get col_centers ''CARGOS'' of
           Inl e \<Rightarrow> Inl e
         | Inr x_cargos \<Rightarrow>
             (let desc_words =
                    map w_text
                      (filter (\<lambda>w. \<not> ((w_x0 w + w_x1 w) / 2 \<ge> x_cargos)
                                   \<and> w_text w \<notin> {fecha_op_raw, fecha_liq_raw, codigo1}) fila)
              in case asignar_montos col_centers fila (None, None, None, None) of
                   Inl e \<Rightarrow> Inl e
                 | Inr (c, a, so, sl) \<Rightarrow>
                     Inr \<lparr>fecha_operacion = parse_fecha fecha_op_raw (e_anio env),
                          fecha_liquidacion = parse_fecha fecha_liq_raw (e_anio env),
                          codigo = codigo1,
                          descripcion = strip (join '' '' desc_words),
                          cargos = c, abonos = a,
                          saldo_operacion = so, saldo_liquidacion = sl,
                          detalle = [],
                          cuenta = e_cuenta env, moneda = e_moneda env,
                          origen_pdf = e_origen env, pagina = num_pagina\<rparr>))"

definition agregar_detalle ::
  "string movimiento list \<Rightarrow> nat \<Rightarrow> string \<Rightarrow> error + string movimiento list" where
  \<comment> \<open>a row without two dates, while a record is open: its text goes to that record's detail\<close>
  "agregar_detalle movimientos idx extra =
     (if extra \<noteq> [] \<and> \<not> startswith extra ''FECHA SALDO'' then
        (if idx < length movimientos then
           (let anterior = detalle (movimientos ! idx)
            in Inr (movimientos
                     [idx := (movimientos ! idx)
                        \<lparr>detalle := (if anterior \<noteq> [] then anterior @ '' | '' @ extra else extra)\<rparr>]))
         else Inl IndexError)
      else Inr movimientos)"

fun bbva_procesar_filas ::
  "entorno \<Rightarrow> nat \<Rightarrow> (string \<times> rat) list \<Rightarrow> word list list
     \<Rightarrow> string movimiento list \<times> nat option \<Rightarrow> error + string movimiento list \<times> nat option" where
  \<comment> \<open>the loop over the rows of one page; the state is the list of records and
      \<open>idx_ultimo_mov\<close>\<close>
  "bbva_procesar_filas env num_pagina col_centers [] st = Inr st"
| "bbva_procesar_filas env num_pagina col_centers (fila # filas) (movimientos, idx_ultimo_mov) =
     (let texto_fila = strip (join '' '' (map w_text fila)) in
      if texto_fila = [] then
        bbva_procesar_filas env num_pagina col_centers filas (movimientos, idx_ultimo_mov)
      else if contains ''TOTAL DE MOVIMIENTOS'' (upper texto_fila)
              \<or> contains ''TOTAL MOVIMIENTOS'' (upper texto_fila) then
        Inr (movimientos, idx_ultimo_mov)
      else
        (case idx_fechas_de (map w_text fila) of
           i1 # i2 # _ \<Rightarrow>
             (case movimiento_de_fila env num_pagina col_centers fila i1 i2 of
                Inl e \<Rightarrow> Inl e
              | Inr m \<Rightarrow>
                  bbva_procesar_filas env num_pagina col_centers filas
                    (movimientos @ [m], Some (length (movimientos @ [m]) - 1)))
         | _ \<Rightarrow>
             (case idx_ultimo_mov of
                None \<Rightarrow>
                  bbva_procesar_filas env num_pagina col_centers filas (movimientos, idx_ultimo_mov)
              | Some idx \<Rightarrow>
                  (case agregar_detalle movimientos idx texto_fila of
                     Inl e \<Rightarrow> Inl e
                   | Inr movimientos1 \<Rightarrow>
                       bbva_procesar_filas env num_pagina col_centers filas
                         (movimientos1, idx_ultimo_mov)))))"

fun bbva_procesar_paginas ::
  "entorno \<Rightarrow> nat \<Rightarrow> page list \<Rightarrow> string movimiento list \<Rightarrow> error + string movimiento list" where
  \<comment> \<open>the loop over the pages, numbered from \<open>num_pagina\<close>; \<open>idx_ultimo_mov\<close> starts as
      \<open>None\<close> on every page that is not skipped\<close>
  "bbva_procesar_paginas env num_pagina [] movimientos = Inr movimientos"
| "bbva_procesar_paginas env num_pagina (pg # pgs) movimientos =
     (let txt = upper (p_text pg) in
      if num_pagina = 1 \<and> (\<not> contains ''CARGOS'' txt \<or> \<not> contains ''ABONOS'' txt) then
        bbva_procesar_paginas env (num_pagina + 1) pgs movimientos
      else
        (case detectar_columnas_montos (p_words pg) tol_fila_default of
           None \<Rightarrow> bbva_procesar_paginas env (num_pagina + 1) pgs movimientos
         | Some col_centers \<Rightarrow>
             if col_centers = [] then bbva_procesar_paginas env (num_pagina + 1) pgs movimientos
             else
               (case bbva_procesar_filas env num_pagina col_centers
                       (agrupar_filas (p_words pg) tol_default) (movimientos, None) of
                  Inl e \<Rightarrow> Inl e
                | Inr (movimientos1, _) \<Rightarrow>
                    bbva_procesar_paginas env (num_pagina + 1) pgs movimientos1)))"

definition bbva_parse_movimientos :: "parser \<Rightarrow> document \<Rightarrow> error + string movimiento list" where
  \<comment> \<open>\<open>BBVAParser.parse_movimientos\<close>; the rows of the returned frame, in order. Reading the
      cover page of a file without pages is the \<open>IndexError\<close>\<close>
  "bbva_parse_movimientos ps doc =
     (case d_pages doc of
        [] \<Rightarrow> Inl IndexError
      | portada # _ \<Rightarrow>
          bbva_procesar_paginas
            \<lparr>e_cuenta = cuenta_de ps doc, e_moneda = moneda_por_defecto ps,
             e_origen = d_name doc, e_anio = obtener_anio_desde_portada (p_text portada)\<rparr>
            1 (d_pages doc) [])"

section \<open>The line-pattern parser\<close>

subsection \<open>Dates\<close>

type_synonym fecha = "nat \<times> nat \<times> nat"

text \<open>
  A calendar date is year, month and day, so that the order of the triples is the order of
  time. \<open>pd.to_datetime\<close> belongs to a library, not to the repository: the parser below
  takes it as the argument \<open>to_datetime\<close>, called with the value of \<open>dayfirst\<close> and the
  text, and \<open>None\<close> is its \<open>NaT\<close>. Everything proved about the parser holds for every such
  function.
\<close>

fun show_nat :: "nat \<Rightarrow> string" where
  "show_nat n =
     (if n < 10 then [char_of (48 + n)] else show_nat (n div 10) @ [char_of (48 + n mod 10)])"

definition zfill :: "nat \<Rightarrow> string \<Rightarrow> string" where
  "zfill n s = replicate (n - length s) (CHR ''0'') @ s"

definition strftime_ymd :: "fecha \<Rightarrow> string" where
  \<comment> \<open>\<open>dt.strftime("%Y-%m-%d")\<close>\<close>
  "strftime_ymd dt =
     (case dt of (y, m, d) \<Rightarrow>
        zfill 4 (show_nat y) @ ''-'' @ zfill 2 (show_nat m) @ ''-'' @ zfill 2 (show_nat d))"

definition parse_fecha_tc :: "(bool \<Rightarrow> string \<Rightarrow> fecha option) \<Rightarrow> string \<Rightarrow> string option" where
  \<comment> \<open>\<open>_parse_fecha_tc\<close>\<close>
  "parse_fecha_tc to_datetime s =
     (let s1 = strip s in
      if s1 = [] then None
      else (case to_datetime True s1 of None \<Rightarrow> None | Some dt \<Rightarrow> Some (strftime_ymd dt)))"

definition o_bien :: "string option \<Rightarrow> string \<Rightarrow> string" where
  \<comment> \<open>\<open>x or y\<close> for an optional text \<open>x\<close>\<close>
  "o_bien x y = (case x of None \<Rightarrow> y | Some t \<Rightarrow> if t = [] then y else t)"

definition dias_del_mes :: "nat \<Rightarrow> nat \<Rightarrow> nat" where
  "dias_del_mes y m =
     (if m = 2 then (if y mod 4 = 0 \<and> (y mod 100 \<noteq> 0 \<or> y mod 400 = 0) then 29 else 28)
      else if m \<in> {4, 6, 9, 11} then 30 else 31)"

definition fecha_valida :: "nat \<Rightarrow> nat \<Rightarrow> nat \<Rightarrow> fecha option" where
  "fecha_valida y m d =
     (if 1 \<le> m \<and> m \<le> 12 \<and> 1 \<le> d \<and> d \<le> dias_del_mes y m then Some (y, m, d) else None)"

definition to_datetime_estricto :: "bool \<Rightarrow> string \<Rightarrow> fecha option" where
  \<comment> \<open>one function to put for \<open>to_datetime\<close> where a concrete document is evaluated: it
      reads \<open>DD/MM/YYYY\<close> and \<open>DD/MM/YY\<close> when the day comes first, \<open>YYYY-MM-DD\<close>
      otherwise, accepts calendar dates only and has no date for any other text\<close>
  "to_datetime_estricto dayfirst s =
     (if dayfirst then
        (case re_match
                [Bol, Open ''d'', digits 2 2, Close ''d'', Lit (CHR ''/''),
                 Open ''m'', digits 2 2, Close ''m'', Lit (CHR ''/''),
                 Open ''y'', digits 4 4, Close ''y'', Eos] s of
           Some g \<Rightarrow>
             fecha_valida (digits_val (group g ''y'')) (digits_val (group g ''m''))
               (digits_val (group g ''d''))
         | None \<Rightarrow>
             (case re_match
                     [Bol, Open ''d'', digits 2 2, Close ''d'', Lit (CHR ''/''),
                      Open ''m'', digits 2 2, Close ''m'', Lit (CHR ''/''),
                      Open ''y'', digits 2 2, Close ''y'', Eos] s of
                Some g \<Rightarrow>
                  fecha_valida
                    (let yy = digits_val (group g ''y'') in if yy < 69 then 2000 + yy else 1900 + yy)
                    (digits_val (group g ''m'')) (digits_val (group g ''d''))
              | None \<Rightarrow> None))
      else
        (case re_match
                [Bol, Open ''y'', digits 4 4, Close ''y'', Lit (CHR ''-''),
                 Open ''m'', digits 2 2, Close ''m'', Lit (CHR ''-''),
                 Open ''d'', digits 2 2, Close ''d'', Eos] s of
           Some g \<Rightarrow>
             fecha_valida (digits_val (group g ''y'')) (digits_val (group g ''m''))
               (digits_val (group g ''d''))
         | None \<Rightarrow> None))"

subsection \<open>Lines into records\<close>

definition norm_line :: "string \<Rightarrow> string" where
  \<comment> \<open>\<open>_norm_line\<close>\<close>
  "norm_line line = join '' '' (split_ws (strip (replace (CHR 0xA0) '' '' line)))"

definition stop_markers :: "string list" where
  "stop_markers =
     [''TABLA / GRAFICO DE ESTADO DE CUENTA'',
      ''TABLA / GR'' @ [CHR 0xC1] @ ''FICO DE ESTADO DE CUENTA'',
      ''TABLA/GRAFICO DE ESTADO DE CUENTA'',
      ''TABLA/GR'' @ [CHR 0xC1] @ ''FICO DE ESTADO DE CUENTA'']"

definition skip_starts :: "string list" where
  "skip_starts =
     [''ESTADO DE CUENTA'', ''PAGINA'', ''LINEA BBVA'', ''AV. PASEO'', ''BBVA MEXICO'',
      ''ESTIMADO TARJETAHABIENTE'', ''IVA'',
      [CHR 0x22] @ ''SI ESTAS ADHERIDO'', ''SI ESTAS ADHERIDO'']"

definition fecha_tc_items :: "string \<Rightarrow> item list" where
  \<comment> \<open>\<open>(?P<n>\d{2}/\d{2}/\d{2,4})\<close>\<close>
  "fecha_tc_items n =
     [Open n, digits 2 2, Lit (CHR ''/''), digits 2 2, Lit (CHR ''/''), digits 2 4, Close n]"

definition monto_tc_items :: "item list" where
  \<comment> \<open>\<open>\$\s*(?P<monto>-?[\d,]+\.\d{2})\s*$\<close>\<close>
  "monto_tc_items =
     [Lit (CHR ''$''), spaces0,
      Open ''monto'', Rep (Chars ''-'') 0 (Some 1) True, Rep (Union Digit (Chars '','')) 1 None True,
      Lit (CHR ''.''), digits 2 2, Close ''monto'',
      spaces0, Eol]"

definition ref_tc_items :: "item list" where
  \<comment> \<open>\<open>(?P<ref>[\*Xx\d]{4,})\s+\<close>\<close>
  "ref_tc_items = [Open ''ref'', Rep (Union (Chars ''*Xx'') Digit) 4 None True, Close ''ref'', spaces1]"

definition concepto_tc_items :: "item list" where
  \<comment> \<open>\<open>(?P<concepto>.+?)\s+\<close>\<close>
  "concepto_tc_items = [Open ''concepto'', Rep AnyChar 1 None False, Close ''concepto'', spaces1]"

definition rx_con_rfc :: "item list" where
  "rx_con_rfc =
     [Bol] @ fecha_tc_items ''f1'' @ [spaces1] @ fecha_tc_items ''f2'' @ [spaces1]
     @ concepto_tc_items
     @ [Open ''rfc1'', Rep (Union (Range (CHR ''A'') (CHR ''Z'')) (Chars [CHR 0xD1, CHR ''&''])) 3 (Some 3) True,
        Close ''rfc1'', spaces1,
        Open ''rfc2'', Rep (Union (Range (CHR ''0'') (CHR ''9'')) (Range (CHR ''A'') (CHR ''Z''))) 8 (Some 12) True,
        Close ''rfc2'', spaces1]
     @ ref_tc_items @ monto_tc_items"

definition rx_sin_rfc :: "item list" where
  "rx_sin_rfc =
     [Bol] @ fecha_tc_items ''f1'' @ [spaces1] @ fecha_tc_items ''f2'' @ [spaces1]
     @ concepto_tc_items @ ref_tc_items @ monto_tc_items"

record campos =
  c_f1 :: string
  c_f2 :: string
  c_concepto :: string
  c_rfc :: string
  c_ref :: string
  c_monto_txt :: string

definition campos_de_linea :: "string \<Rightarrow> campos option" where
  \<comment> \<open>the two patterns in turn, and the local variables a match sets\<close>
  "campos_de_linea line =
     (case re_match rx_con_rfc line of
        Some m \<Rightarrow>
          Some \<lparr>c_f1 = group m ''f1'', c_f2 = group m ''f2'',
                c_concepto = strip (group m ''concepto''),
                c_rfc = strip (strip (group m ''rfc1'') @ '' '' @ strip (group m ''rfc2'')),
                c_ref = strip (group m ''ref''),
                c_monto_txt = strip (group m ''monto'')\<rparr>
      | None \<Rightarrow>
          (case re_match rx_sin_rfc line of
             None \<Rightarrow> None
           | Some m2 \<Rightarrow>
               Some \<lparr>c_f1 = group m2 ''f1'', c_f2 = group m2 ''f2'',
                     c_concepto = strip (group m2 ''concepto''),
                     c_rfc = [],
                     c_ref = strip (group m2 ''ref''),
                     c_monto_txt = strip (group m2 ''monto'')\<rparr>))"

definition registro_de_campos ::
  "(bool \<Rightarrow> string \<Rightarrow> fecha option) \<Rightarrow> entorno \<Rightarrow> nat \<Rightarrow> campos \<Rightarrow> pyfloat \<Rightarrow> string movimiento" where
  \<comment> \<open>the dictionary appended for a matched line whose amount is \<open>monto\<close>\<close>
  "registro_de_campos to_datetime env num_pagina cs monto =
     \<lparr>fecha_operacion = o_bien (parse_fecha_tc to_datetime (c_f1 cs)) (c_f1 cs),
      fecha_liquidacion = o_bien (parse_fecha_tc to_datetime (c_f2 cs)) (c_f2 cs),
      codigo = [],
      descripcion = c_concepto cs,
      cargos = (if pf_lt0 monto then None else Some monto),
      abonos = (if pf_lt0 monto then Some (pf_abs monto) else None),
      saldo_operacion = None,
      saldo_liquidacion = None,
      detalle =
        strip (join '' ''
          ((if c_rfc cs \<noteq> [] then [''RFC:'' @ c_rfc cs] else [])
           @ (if c_ref cs \<noteq> [] then [''REF:'' @ c_ref cs] else []))),
      cuenta = e_cuenta env, moneda = e_moneda env,
      origen_pdf = e_origen env, pagina = num_pagina\<rparr>"

datatype resultado_linea = Corte | Omitida | Registro "string movimiento"

definition es_corte :: "string \<Rightarrow> bool" where
  \<comment> \<open>\<open>any(m in up for m in stop_markers)\<close> for \<open>up = line.upper()\<close>\<close>
  "es_corte line = list_ex (\<lambda>m. contains m (upper line)) stop_markers"

definition tc_procesar_linea ::
  "(bool \<Rightarrow> string \<Rightarrow> fecha option) \<Rightarrow> entorno \<Rightarrow> nat \<Rightarrow> string \<Rightarrow> resultado_linea" where
  \<comment> \<open>the body of the loop over the lines of a page\<close>
  "tc_procesar_linea to_datetime env num_pagina line =
     (if line = [] then Omitida
      else if es_corte line then Corte
      else if list_ex (\<lambda>p. startswith (upper line) p) skip_starts then Omitida
      else if contains ''FECHA'' (upper line) \<and> contains ''AUTORIZACION'' (upper line)
              \<and> contains ''APLICACION'' (upper line) then Omitida
      else if contains ''IMPORTE'' (upper line)
              \<and> (contains ''CARGOS'' (upper line) \<or> contains ''ABONOS'' (upper line)) then Omitida
      else
        (case campos_de_linea line of
           None \<Rightarrow> Omitida
         | Some cs \<Rightarrow>
             (case bbva_tc_limpiar_monto (Some (c_monto_txt cs)) of
                None \<Rightarrow> Omitida
              | Some monto \<Rightarrow> Registro (registro_de_campos to_datetime env num_pagina cs monto))))"

fun tc_procesar_lineas ::
  "(bool \<Rightarrow> string \<Rightarrow> fecha option) \<Rightarrow> entorno \<Rightarrow> nat \<Rightarrow> string list
     \<Rightarrow> string movimiento list \<Rightarrow> string movimiento list \<times> bool" where
  \<comment> \<open>the loop over the lines of one page; the truth value is \<open>stop_found\<close>\<close>
  "tc_procesar_lineas to_datetime env num_pagina [] movimientos = (movimientos, False)"
| "tc_procesar_lineas to_datetime env num_pagina (line # lines) movimientos =
     (case tc_procesar_linea to_datetime env num_pagina line of
        Corte \<Rightarrow> (movimientos, True)
      | Omitida \<Rightarrow> tc_procesar_lineas to_datetime env num_pagina lines movimientos
      | Registro m \<Rightarrow> tc_procesar_lineas to_datetime env num_pagina lines (movimientos @ [m]))"

definition lineas_de :: "string \<Rightarrow> string list" where
  \<comment> \<open>\<open>[_norm_line(l) for l in (text.splitlines() if text else [])]\<close>\<close>
  "lineas_de text = map norm_line (splitlines text)"

fun tc_procesar_paginas ::
  "(bool \<Rightarrow> string \<Rightarrow> fecha option) \<Rightarrow> entorno \<Rightarrow> nat \<Rightarrow> string list
     \<Rightarrow> string movimiento list \<times> bool \<Rightarrow> string movimiento list" where
  \<comment> \<open>the loop over the page texts, numbered from \<open>num_pagina\<close>\<close>
  "tc_procesar_paginas to_datetime env num_pagina [] (movimientos, stop_found) = movimientos"
| "tc_procesar_paginas to_datetime env num_pagina (text # texts) (movimientos, stop_found) =
     (if stop_found then movimientos
      else if lineas_de text = [] then
        tc_procesar_paginas to_datetime env (num_pagina + 1) texts (movimientos, stop_found)
      else
        tc_procesar_paginas to_datetime env (num_pagina + 1) texts
          (tc_procesar_lineas to_datetime env num_pagina (lineas_de text) movimientos))"

subsection \<open>The final ordering\<close>

definition con_fecha_liquidacion :: "'a movimiento \<Rightarrow> 'b \<Rightarrow> 'b movimiento" where
  \<comment> \<open>the same row with another value in the settlement-date column\<close>
  "con_fecha_liquidacion m d =
     \<lparr>fecha_operacion = fecha_operacion m, fecha_liquidacion = d, codigo = codigo m,
      descripcion = descripcion m, cargos = cargos m, abonos = abonos m,
      saldo_operacion = saldo_operacion m, saldo_liquidacion = saldo_liquidacion m,
      detalle = detalle m, cuenta = cuenta m, moneda = moneda m,
      origen_pdf = origen_pdf m, pagina = pagina m\<rparr>"

definition convertir_fecha_liquidacion ::
  "(bool \<Rightarrow> string \<Rightarrow> fecha option) \<Rightarrow> string movimiento list \<Rightarrow> fecha option movimiento list" where
  \<comment> \<open>\<open>df["fecha_liquidacion"] = pd.to_datetime(df["fecha_liquidacion"], errors="coerce")\<close>,
      value by value\<close>
  "convertir_fecha_liquidacion to_datetime df =
     map (\<lambda>m. con_fecha_liquidacion m (to_datetime False (fecha_liquidacion m))) df"

definition clave_orden :: "fecha option movimiento \<Rightarrow> (nat \<times> fecha) \<times> nat" where
  \<comment> \<open>the order of \<open>by=["fecha_liquidacion", "pagina"], na_position="last"\<close>: rows without a
      date come after the dated ones, and the page number decides among equal dates\<close>
  "clave_orden m =
     ((case fecha_liquidacion m of None \<Rightarrow> (1, (0, 0, 0)) | Some d \<Rightarrow> (0, d)), pagina m)"

definition sort_values :: "fecha option movimiento list \<Rightarrow> fecha option movimiento list" where
  \<comment> \<open>\<open>df.sort_values(...).reset_index(drop=True)\<close>: a stable sort on several columns\<close>
  "sort_values df = sort_key clave_orden df"

definition bbva_tc_parse_movimientos ::
  "(bool \<Rightarrow> string \<Rightarrow> fecha option) \<Rightarrow> parser \<Rightarrow> document \<Rightarrow> fecha option movimiento list" where
  \<comment> \<open>\<open>BBVATCParser.parse_movimientos\<close>; the rows of the returned frame, in order\<close>
  "bbva_tc_parse_movimientos to_datetime ps doc =
     (let movimientos =
            tc_procesar_paginas to_datetime
              \<lparr>e_cuenta = cuenta_de ps doc, e_moneda = moneda_por_defecto ps,
               e_origen = d_name doc, e_anio = None\<rparr>
              1 (map p_text (d_pages doc)) ([], False)
      in if movimientos = [] then []
         else sort_values (convertir_fecha_liquidacion to_datetime movimientos))"

section \<open>Concrete inputs\<close>

definition fila_df :: "fecha option \<Rightarrow> nat \<Rightarrow> fecha option movimiento" where
  \<comment> \<open>a row of the frame the line-pattern parser sorts, with the two columns of the sort key\<close>
  "fila_df d n =
     \<lparr>fecha_operacion = ''2025-01-08'', fecha_liquidacion = d, codigo = [],
      descripcion = ''PAGO TDC'', cargos = None, abonos = Some (Finite 5),
      saldo_operacion = None, saldo_liquidacion = None, detalle = ''REF:****0110'',
      cuenta = ''TC'', moneda = ''MXN'', origen_pdf = ''tc.pdf'', pagina = n\<rparr>"

section \<open>Properties\<close>



subsection \<open>The amount normalizers\<close>



subsection \<open>The two tolerances\<close>

text \<open>
  C9, as stated: the default tolerance of the row grouper is larger than the default
  tolerance of the column resolver. It is not.
\<close>

theorem row_tolerance_coarser_counterexample:
  "\<not> (tol_default > tol_fila_default)"
  by (simp add: tol_default_def tol_fila_default_def)

text \<open>
  C9, amended: the default tolerance of the row grouper (2) is smaller than the default
  tolerance of the column resolver for header rows (3).
\<close>

theorem row_tolerance_finer:
  "tol_default < tol_fila_default \<and> tol_default = 2 \<and> tol_fila_default = 3"
  by (simp add: tol_default_def tol_fila_default_def)

subsection \<open>The final ordering of the line-pattern parser\<close>

lemma clave_orden_nat_last:
  assumes "clave_orden a \<le> clave_orden b" "fecha_liquidacion a = None"
  shows "fecha_liquidacion b = None"
  using assms by (auto simp: clave_orden_def less_eq_prod_def split: option.splits)

text \<open>
  C7. Sorting a list of rows that is already in the order of (settlement date, page number),
  rows without a date last, returns the list unchanged; and in every sorted result a row
  whose settlement date is absent stands after every row that has one.
\<close>

theorem sort_values_noop_and_nat_last:
  "(sorted (map clave_orden df) \<longrightarrow> sort_values df = df)
   \<and> (\<forall>i j. i < length (sort_values df) \<and> j < length (sort_values df)
          \<and> fecha_liquidacion (sort_values df ! i) = None
          \<and> fecha_liquidacion (sort_values df ! j) \<noteq> None \<longrightarrow> j < i)"
proof (intro conjI impI allI)
  assume "sorted (map clave_orden df)"
  then show "sort_values df = df"
    unfolding sort_values_def by (rule sort_key_id_if_sorted)
next
  fix i j
  let ?r = "sort_values df"
  assume h: "i < length ?r \<and> j < length ?r \<and> fecha_liquidacion (?r ! i) = None
             \<and> fecha_liquidacion (?r ! j) \<noteq> None"
  have s: "sorted (map clave_orden ?r)"
    unfolding sort_values_def by (rule sorted_sort_key)
  show "j < i"
  proof (rule ccontr)
    assume "\<not> j < i"
    then have "i \<le> j" by simp
    with s h have "map clave_orden ?r ! i \<le> map clave_orden ?r ! j"
      by (simp add: sorted_nth_mono del: nth_map)
    with h have "clave_orden (?r ! i) \<le> clave_orden (?r ! j)" by simp
    then have "fecha_liquidacion (?r ! j) = None"
      using h by (intro clave_orden_nat_last [of "?r ! i" "?r ! j"]) simp_all
    with h show False by simp
  qed
qed

theorem sort_values_noop_and_nat_last_witness:
  "sorted (map clave_orden
      [fila_df (Some (2025, 1, 8)) 1, fila_df (Some (2025, 1, 8)) 2, fila_df None 1])
   \<and> sort_values [fila_df (Some (2025, 1, 8)) 1, fila_df (Some (2025, 1, 8)) 2, fila_df None 1]
       = [fila_df (Some (2025, 1, 8)) 1, fila_df (Some (2025, 1, 8)) 2, fila_df None 1]
   \<and> (1 :: nat) < length (sort_values [fila_df None 1, fila_df (Some (2025, 1, 8)) 2])
   \<and> fecha_liquidacion (sort_values [fila_df None 1, fila_df (Some (2025, 1, 8)) 2] ! 1) = None
   \<and> fecha_liquidacion (sort_values [fila_df None 1, fila_df (Some (2025, 1, 8)) 2] ! 0) \<noteq> None
   \<and> (0 :: nat) < 1"
proof -
  let ?a = "[fila_df (Some (2025, 1, 8)) 1, fila_df (Some (2025, 1, 8)) 2, fila_df None 1]"
  let ?b = "[fila_df None 1, fila_df (Some (2025, 1, 8)) 2]"
  have s: "sorted (map clave_orden ?a)"
    by (simp add: clave_orden_def fila_df_def)
  have n: "sort_values ?a = ?a"
    using sort_values_noop_and_nat_last [of ?a, THEN conjunct1] s by (rule mp)
  have e: "sort_values ?b = [fila_df (Some (2025, 1, 8)) 2, fila_df None 1]"
    by (simp add: sort_values_def clave_orden_def fila_df_def)
  have h: "1 < length (sort_values ?b) \<and> 0 < length (sort_values ?b)
           \<and> fecha_liquidacion (sort_values ?b ! 1) = None
           \<and> fecha_liquidacion (sort_values ?b ! 0) \<noteq> None"
    unfolding e by (simp add: fila_df_def)
  have l: "(0 :: nat) < 1"
    using sort_values_noop_and_nat_last [of ?b, THEN conjunct2, rule_format, of 1 0] h by blast
  from s n h l show ?thesis by blast
qed

end
